theory Spec2Isabelle
  imports Main
begin

section \<open>Strings as Go has them\<close>

text \<open>
  A Go \<open>string\<close> is a sequence of bytes; \<open>string\<close> here is \<open>char list\<close> and a \<open>char\<close> is
  one byte. Text beyond ASCII is UTF-8, several bytes per code point.
\<close>

subsection \<open>\<open>strings.TrimSpace\<close>\<close>

text \<open>
  \<open>strings.TrimSpace\<close> removes leading and trailing code points for which
  \<open>unicode.IsSpace\<close> holds. Those are the six ASCII characters tab, line feed, vertical
  tab, form feed, carriage return and space, then U+0085, U+00A0, U+1680, U+2000 to U+200A,
  U+2028, U+2029, U+202F, U+205F and U+3000. \<open>space_runes\<close> lists their UTF-8 encodings.
  A byte that starts no valid encoding decodes as U+FFFD, which is not a space, so trimming
  stops there.
\<close>

definition space_runes :: "string list" where
  "space_runes =
    [[CHR 0x09], [CHR 0x0A], [CHR 0x0B], [CHR 0x0C], [CHR 0x0D], [CHR 0x20],
     [CHR 0xC2, CHR 0x85], [CHR 0xC2, CHR 0xA0],
     [CHR 0xE1, CHR 0x9A, CHR 0x80],
     [CHR 0xE2, CHR 0x80, CHR 0x80], [CHR 0xE2, CHR 0x80, CHR 0x81],
     [CHR 0xE2, CHR 0x80, CHR 0x82], [CHR 0xE2, CHR 0x80, CHR 0x83],
     [CHR 0xE2, CHR 0x80, CHR 0x84], [CHR 0xE2, CHR 0x80, CHR 0x85],
     [CHR 0xE2, CHR 0x80, CHR 0x86], [CHR 0xE2, CHR 0x80, CHR 0x87],
     [CHR 0xE2, CHR 0x80, CHR 0x88], [CHR 0xE2, CHR 0x80, CHR 0x89],
     [CHR 0xE2, CHR 0x80, CHR 0x8A],
     [CHR 0xE2, CHR 0x80, CHR 0xA8], [CHR 0xE2, CHR 0x80, CHR 0xA9],
     [CHR 0xE2, CHR 0x80, CHR 0xAF], [CHR 0xE2, CHR 0x81, CHR 0x9F],
     [CHR 0xE3, CHR 0x80, CHR 0x80]]"

text \<open>The number of bytes of the space the string starts with; 0 when it starts with none.\<close>

definition leading_space :: "string \<Rightarrow> nat" where
  "leading_space s =
     (case filter (\<lambda>p. take (length p) s = p) space_runes of
        [] \<Rightarrow> 0
      | p # _ \<Rightarrow> length p)"

text \<open>The same at the end of the string (\<open>utf8.DecodeLastRuneInString\<close>).\<close>

definition trailing_space :: "string \<Rightarrow> nat" where
  "trailing_space s =
     (case filter (\<lambda>p. drop (length s - length p) s = p) space_runes of
        [] \<Rightarrow> 0
      | p # _ \<Rightarrow> length p)"

lemma leading_space_le: "leading_space s \<le> length s"
proof (cases "filter (\<lambda>p. take (length p) s = p) space_runes")
  case Nil
  then show ?thesis by (simp add: leading_space_def)
next
  case (Cons p ps)
  then have "p \<in> set (filter (\<lambda>p. take (length p) s = p) space_runes)" by simp
  then have "take (length p) s = p" by simp
  then have "length p \<le> length s"
    by (metis length_take min.cobounded1)
  with Cons show ?thesis by (simp add: leading_space_def)
qed

lemma trailing_space_le: "trailing_space s \<le> length s"
proof (cases "filter (\<lambda>p. drop (length s - length p) s = p) space_runes")
  case Nil
  then show ?thesis by (simp add: trailing_space_def)
next
  case (Cons p ps)
  then have "p \<in> set (filter (\<lambda>p. drop (length s - length p) s = p) space_runes)" by simp
  then have "drop (length s - length p) s = p" by simp
  then have "length p \<le> length s"
    by (metis diff_le_self length_drop)
  with Cons show ?thesis by (simp add: trailing_space_def)
qed

function TrimLeftSpace :: "string \<Rightarrow> string" where
  "TrimLeftSpace s =
     (if leading_space s = 0 then s else TrimLeftSpace (drop (leading_space s) s))"
  by pat_completeness auto
termination
proof (relation "measure length")
  show "wf (measure length)" by simp
next
  fix s :: string
  assume "leading_space s \<noteq> 0"
  with leading_space_le [of s] show "(drop (leading_space s) s, s) \<in> measure length"
    by simp
qed

function TrimRightSpace :: "string \<Rightarrow> string" where
  "TrimRightSpace s =
     (if trailing_space s = 0 then s
      else TrimRightSpace (take (length s - trailing_space s) s))"
  by pat_completeness auto
termination
proof (relation "measure length")
  show "wf (measure length)" by simp
next
  fix s :: string
  assume "trailing_space s \<noteq> 0"
  with trailing_space_le [of s]
  show "(take (length s - trailing_space s) s, s) \<in> measure length"
    by simp
qed

declare TrimLeftSpace.simps [simp del]
declare TrimRightSpace.simps [simp del]

definition TrimSpace :: "string \<Rightarrow> string" where
  "TrimSpace s = TrimRightSpace (TrimLeftSpace s)"

section \<open>The expression library\<close>

text \<open>
  Expressions are compiled and evaluated by the CEL library, which is not part of this
  program. It enters the model as a parameter: \<open>cel.NewEnv\<close> on the declarations of a
  store either fails or gives an environment, and in an environment an expression text
  has one of four fates, after the three calls \<open>env.Compile\<close>, \<open>env.Program\<close> and
  \<open>prg.Eval\<close> of the template expander. A value is kept as the text that
  \<open>fmt.Sprintf("%v", out.Value())\<close> prints.
\<close>

datatype any = GoString string | GoInt int | GoBool bool

type_synonym store = "string \<rightharpoonup> any"

datatype cel_result =
    CompileIssues string
  | ProgramError string
  | EvalError string
  | Value string

type_synonym cel_env = "string \<Rightarrow> cel_result"

type_synonym cel = "store \<Rightarrow> string + cel_env"

section \<open>Errors\<close>

text \<open>
  One constructor for each \<open>fmt.Errorf\<close> of the runner, holding what the format string
  is filled with, and one for the error of \<open>execCmd.Run()\<close>, which \<open>Run\<close> returns as it is.
\<close>

datatype error =
    CELEnvError string
  | CompilationError string string
  | ProgramCreationError string string
  | EvaluationError string string
  | ExpandError error
  | BuildError error
  | ExecError string
  | BlockError int error

section \<open>Template expansion\<close>

subsection \<open>The pattern \<open>celExprReg\<close>\<close>

text \<open>
  \<open>celExprReg\<close> is \<^verbatim>\<open>\{\{([^}]+)\}\}\<close>: two opening braces, one or more bytes other
  than a closing brace, two closing braces. The class \<^verbatim>\<open>[^}]\<close> is greedy and cannot
  give back a byte (the byte after the run is a closing brace or the end), so a match at
  a position, if there is one, takes the whole run. \<open>celExprReg_match s\<close> is the match
  that begins at the first byte of \<open>s\<close>.
\<close>

definition celExprReg_match :: "string \<Rightarrow> string option" where
  "celExprReg_match s =
     (if take 2 s = ''{{'' then
        (let body = takeWhile (\<lambda>c. c \<noteq> CHR ''}'') (drop 2 s) in
         if body \<noteq> [] \<and> take 2 (drop (2 + length body) s) = ''}}''
         then Some (take (length body + 4) s)
         else None)
      else None)"

lemma celExprReg_match_length:
  "celExprReg_match s = Some m \<Longrightarrow> 0 < length m \<and> length m \<le> length s"
  by (auto simp: celExprReg_match_def Let_def split: if_splits)

subsection \<open>\<open>ReplaceAllStringFunc\<close>\<close>

text \<open>
  \<open>celExprReg.ReplaceAllStringFunc(template, repl)\<close> goes through the template from left
  to right. Where a match begins it calls \<open>repl\<close> on the matched text, writes what
  \<open>repl\<close> returns and goes on behind the match; elsewhere it copies one byte. The closure
  handed over by \<open>ExpandTemplate\<close> assigns to the captured variable \<open>expandErr\<close>, so
  \<open>repl\<close> takes and returns that variable.
\<close>

function ReplaceAllStringFunc ::
  "(string \<Rightarrow> 'v \<Rightarrow> string \<times> 'v) \<Rightarrow> string \<Rightarrow> 'v \<Rightarrow> string \<times> 'v" where
  "ReplaceAllStringFunc repl [] v = ([], v)"
| "ReplaceAllStringFunc repl (c # cs) v =
     (case celExprReg_match (c # cs) of
        None \<Rightarrow>
          (case ReplaceAllStringFunc repl cs v of (out, v') \<Rightarrow> (c # out, v'))
      | Some m \<Rightarrow>
          (case repl m v of (r, v1) \<Rightarrow>
             (case ReplaceAllStringFunc repl (drop (length m) (c # cs)) v1 of
                (out, v2) \<Rightarrow> (r @ out, v2))))"
  by pat_completeness auto
termination
proof (relation "measure (\<lambda>(repl, s, v). length s)")
  show "wf (measure (\<lambda>(repl :: string \<Rightarrow> 'v \<Rightarrow> string \<times> 'v, s :: string, v :: 'v). length s))"
    by simp
next
  fix repl :: "string \<Rightarrow> 'v \<Rightarrow> string \<times> 'v" and c cs and v :: 'v
  show "((repl, cs, v), (repl, c # cs, v)) \<in> measure (\<lambda>(repl, s, v). length s)"
    by simp
next
  fix repl :: "string \<Rightarrow> 'v \<Rightarrow> string \<times> 'v" and c cs m and v v1 :: 'v
  assume "celExprReg_match (c # cs) = Some m"
  then have "0 < length m" using celExprReg_match_length by blast
  then show "((repl, drop (length m) (c # cs), v1), (repl, c # cs, v))
               \<in> measure (\<lambda>(repl, s, v). length s)"
    by simp
qed

declare ReplaceAllStringFunc.simps(2) [simp del]

subsection \<open>\<open>ExpandTemplate\<close>\<close>

text \<open>
  The closure of \<open>ExpandTemplate\<close>. \<open>match[2 : len(match)-2]\<close> is the text between the
  braces. On a failure the closure assigns \<open>expandErr\<close> and returns the match as it was;
  otherwise it leaves \<open>expandErr\<close> alone and returns the printed value.
\<close>

definition expand_match :: "cel_env \<Rightarrow> string \<Rightarrow> error option \<Rightarrow> string \<times> error option" where
  "expand_match env match expandErr =
     (let expr = TrimSpace (drop 2 (take (length match - 2) match)) in
      case env expr of
        CompileIssues e \<Rightarrow> (match, Some (CompilationError expr e))
      | ProgramError e \<Rightarrow> (match, Some (ProgramCreationError expr e))
      | EvalError e \<Rightarrow> (match, Some (EvaluationError expr e))
      | Value v \<Rightarrow> (v, expandErr))"

text \<open>Go's two results are a pair: the string and the error, \<open>None\<close> for \<open>nil\<close>.\<close>

definition ExpandTemplate :: "cel \<Rightarrow> string \<Rightarrow> store \<Rightarrow> string \<times> error option" where
  "ExpandTemplate cel template store =
     (case cel store of
        Inl e \<Rightarrow> ('''', Some (CELEnvError e))
      | Inr env \<Rightarrow>
          (case ReplaceAllStringFunc (expand_match env) template None of
             (result, expandErr) \<Rightarrow>
               (case expandErr of
                  Some e \<Rightarrow> ('''', Some e)
                | None \<Rightarrow> (result, None))))"

subsection \<open>The spans of a template\<close>

text \<open>
  The matches that \<open>ReplaceAllStringFunc\<close> hands to the closure, from left to right
  (what \<open>celExprReg.FindAllString(template, -1)\<close> returns), the error that the closure
  assigns for one of them, and the errors assigned during a whole expansion, in the order
  of the assignments.
\<close>

function spans :: "string \<Rightarrow> string list" where
  "spans [] = []"
| "spans (c # cs) =
     (case celExprReg_match (c # cs) of
        None \<Rightarrow> spans cs
      | Some m \<Rightarrow> m # spans (drop (length m) (c # cs)))"
  by pat_completeness auto
termination
proof (relation "measure length")
  show "wf (measure (length :: string \<Rightarrow> nat))" by simp
next
  fix c :: char and cs :: string
  show "(cs, c # cs) \<in> measure length" by simp
next
  fix c :: char and cs m :: string
  assume "celExprReg_match (c # cs) = Some m"
  then have "0 < length m" using celExprReg_match_length by blast
  then show "(drop (length m) (c # cs), c # cs) \<in> measure length" by simp
qed

declare spans.simps(2) [simp del]

definition span_error :: "cel_env \<Rightarrow> string \<Rightarrow> error option" where
  "span_error env m = snd (expand_match env m None)"

definition span_errors :: "cel_env \<Rightarrow> string \<Rightarrow> error list" where
  "span_errors env template = List.map_filter (span_error env) (spans template)"

section \<open>Building the command\<close>

text \<open>
  What the program reads from its platform: \<open>runtime.GOOS\<close>, \<open>os.Getenv\<close> (the empty
  string for a variable that is not set) and \<open>os.Environ()\<close>, the environment as a list
  of \<open>KEY=value\<close> strings.
\<close>

record platform =
  GOOS :: string
  Getenv :: "string \<Rightarrow> string"
  Environ :: "string list"

text \<open>
  \<open>standaloneCommandReg\<close> is \<^verbatim>\<open>^[-_.+a-zA-Z0-9]+$\<close>. Without the multi-line flag
  \<^verbatim>\<open>^\<close> and \<^verbatim>\<open>$\<close> are the two ends of the text, so the pattern matches a string that
  is not empty and has only bytes of the class.
\<close>

definition between :: "char \<Rightarrow> char \<Rightarrow> char \<Rightarrow> bool" where
  "between lo hi c = ((of_char lo :: nat) \<le> of_char c \<and> (of_char c :: nat) \<le> of_char hi)"

definition standalone_class :: "char \<Rightarrow> bool" where
  "standalone_class c =
     (c = CHR ''-'' \<or> c = CHR ''_'' \<or> c = CHR ''.'' \<or> c = CHR ''+'' \<or>
      between CHR ''a'' CHR ''z'' c \<or> between CHR ''A'' CHR ''Z'' c \<or>
      between CHR ''0'' CHR ''9'' c)"

definition standaloneCommandReg_MatchString :: "string \<Rightarrow> bool" where
  "standaloneCommandReg_MatchString c = (c \<noteq> [] \<and> list_all standalone_class c)"

definition detectShell :: "platform \<Rightarrow> string" where
  "detectShell os =
     (let sh = Getenv os ''SHELL'' in
      if sh \<noteq> '''' then sh else ''/bin/sh'')"

text \<open>The three results are a triple; a \<open>nil\<close> slice of arguments is the empty list.\<close>

definition BuildCommand :: "platform \<Rightarrow> string \<Rightarrow> string \<times> string list \<times> error option" where
  "BuildCommand os c =
     (if standaloneCommandReg_MatchString c then (c, [], None)
      else if GOOS os = ''windows'' then (''cmd'', [''/c'', c], None)
      else (let sh = detectShell os in (sh, [''-c'', c], None)))"

section \<open>Running blocks\<close>

subsection \<open>\<open>%d\<close>\<close>

text \<open>
  \<open>fmt.Sprintf("%d", n)\<close>: the decimal digits of \<open>n\<close>, most significant first, after a
  minus sign when \<open>n\<close> is negative. A Go \<open>int\<close> has 64 bits; nothing here adds to an index
  but \<open>i + 1\<close> in \<open>RunAll\<close>, where \<open>i\<close> is below the length of a slice, so indices are
  integers without wrap-around.
\<close>

definition digit :: "nat \<Rightarrow> char" where
  "digit d = char_of (of_char CHR ''0'' + d)"

function digits :: "nat \<Rightarrow> string" where
  "digits n = (if n < 10 then [digit n] else digits (n div 10) @ [digit (n mod 10)])"
  by pat_completeness auto
termination
  by (relation "measure id") auto

declare digits.simps [simp del]

definition Sprintf_d :: "int \<Rightarrow> string" where
  "Sprintf_d n = (if n < 0 then CHR ''-'' # digits (nat (- n)) else digits (nat n))"

subsection \<open>Blocks, runners, commands\<close>

record CodeBlock =
  Language :: string
  Command :: string
  Content :: string

text \<open>
  \<open>Commands\<close> is a Go map, which may be \<open>nil\<close>: \<open>None\<close> is the \<open>nil\<close> map. Reading a key
  that a map does not hold, or any key of the \<open>nil\<close> map, gives the empty string. The two
  writers are handles.
\<close>

type_synonym writer = nat

record Runner =
  DefaultCommand :: string
  Commands :: "(string \<rightharpoonup> string) option"
  Stdout :: writer
  Stderr :: writer

definition index_map :: "(string \<rightharpoonup> string) option \<Rightarrow> string \<Rightarrow> string" where
  "index_map m k =
     (case m of
        None \<Rightarrow> ''''
      | Some f \<Rightarrow> (case f k of None \<Rightarrow> '''' | Some v \<Rightarrow> v))"

text \<open>The \<open>exec.Cmd\<close> that \<open>Run\<close> fills in: program, arguments and the four fields it sets.\<close>

record Cmd =
  cmd_name :: string
  cmd_args :: "string list"
  cmd_Stdin :: string
  cmd_Stdout :: writer
  cmd_Stderr :: writer
  cmd_Env :: "string list"

text \<open>
  Starting the child and waiting for it is the operating system's part. \<open>execCmd.Run()\<close>
  is a parameter: it answers with an error or \<open>nil\<close> for a command, and the answer may
  depend on the commands run before (a child may read what an earlier one wrote) and on
  the context \<open>ctx\<close>, which is fixed during a call. The state of a run is the list of the
  commands on which \<open>execCmd.Run()\<close> was called so far, oldest first.
\<close>

type_synonym process = "Cmd list \<Rightarrow> Cmd \<Rightarrow> string option"

subsection \<open>\<open>Run\<close>\<close>

text \<open>The first lines of \<open>Run\<close>: which command applies to the block.\<close>

definition resolveCommand :: "Runner \<Rightarrow> CodeBlock \<Rightarrow> string" where
  "resolveCommand r block =
     (let cmd = Command block;
          cmd = (if cmd = '''' \<and> Commands r \<noteq> None
                 then index_map (Commands r) (Language block) else cmd);
          cmd = (if cmd = '''' then DefaultCommand r else cmd)
      in cmd)"

text \<open>The store that \<open>Run\<close> builds for the expressions of a block.\<close>

definition Run_store :: "CodeBlock \<Rightarrow> int \<Rightarrow> store" where
  "Run_store block index =
     [''lang'' \<mapsto> GoString (Language block),
      ''content'' \<mapsto> GoString (Content block),
      ''i'' \<mapsto> GoInt index]"

definition Run ::
  "cel \<Rightarrow> platform \<Rightarrow> process \<Rightarrow> Runner \<Rightarrow> CodeBlock \<Rightarrow> int \<Rightarrow> Cmd list
     \<Rightarrow> error option \<times> Cmd list" where
  "Run cel os proc r block index runs =
     (let cmd = resolveCommand r block in
      if cmd = '''' then (None, runs)
      else
        (let store = Run_store block index
         in case ExpandTemplate cel cmd store of
              (expandedCmd, Some err) \<Rightarrow> (Some (ExpandError err), runs)
            | (expandedCmd, None) \<Rightarrow>
                (let expandedCmd = TrimSpace expandedCmd in
                 if expandedCmd = '''' then (None, runs)
                 else
                   (case BuildCommand os expandedCmd of
                      (name, args, Some err) \<Rightarrow> (Some (BuildError err), runs)
                    | (name, args, None) \<Rightarrow>
                        (let execCmd =
                           \<lparr>cmd_name = name, cmd_args = args,
                            cmd_Stdin = Content block,
                            cmd_Stdout = Stdout r, cmd_Stderr = Stderr r,
                            cmd_Env = Environ os @
                              [''CODEBLOCK_LANG='' @ Language block,
                               ''CODEBLOCK_CONTENT='' @ Content block,
                               ''CODEBLOCK_INDEX='' @ Sprintf_d index]\<rparr>
                         in (map_option ExecError (proc runs execCmd), runs @ [execCmd]))))))"

subsection \<open>\<open>RunAll\<close>\<close>

text \<open>The \<open>for\<close> loop over the blocks, from the block with index \<open>i\<close> on.\<close>

fun RunAll_from ::
  "cel \<Rightarrow> platform \<Rightarrow> process \<Rightarrow> Runner \<Rightarrow> int \<Rightarrow> CodeBlock list \<Rightarrow> Cmd list
     \<Rightarrow> error option \<times> Cmd list" where
  "RunAll_from cel os proc r i [] runs = (None, runs)"
| "RunAll_from cel os proc r i (block # blocks) runs =
     (case Run cel os proc r block i runs of
        (Some err, runs') \<Rightarrow> (Some (BlockError (i + 1) err), runs')
      | (None, runs') \<Rightarrow> RunAll_from cel os proc r (i + 1) blocks runs')"

definition RunAll ::
  "cel \<Rightarrow> platform \<Rightarrow> process \<Rightarrow> Runner \<Rightarrow> CodeBlock list \<Rightarrow> Cmd list
     \<Rightarrow> error option \<times> Cmd list" where
  "RunAll cel os proc r blocks runs = RunAll_from cel os proc r 0 blocks runs"

section \<open>The claims in the words of the specification\<close>

text \<open>
  The class of a bare executable name as the specification writes it,
  \<^verbatim>\<open>[A-Za-z0-9_.+-]\<close>, byte by byte.
\<close>

definition bare_name_bytes :: string where
  "bare_name_bytes = ''ABCDEFGHIJKLMNOPQRSTUVWXYZabcdefghijklmnopqrstuvwxyz0123456789_.+-''"

text \<open>
  A span as the pattern of the source has it: two opening braces, at least one byte,
  none of them a closing brace, and two closing braces. \<open>span_content\<close> is what stands
  between the braces.
\<close>

definition span_content :: "string \<Rightarrow> string" where
  "span_content m = drop 2 (take (length m - 2) m)"

definition is_span :: "string \<Rightarrow> bool" where
  "is_span m =
     (4 < length m \<and> take 2 m = ''{{'' \<and> drop (length m - 2) m = ''}}'' \<and>
      CHR ''}'' \<notin> set (span_content m))"

text \<open>A string starts with a span when one of its prefixes is a span.\<close>

definition starts_span :: "string \<Rightarrow> bool" where
  "starts_span s = list_ex (\<lambda>n. is_span (take n s)) [0..<Suc (length s)]"

text \<open>
  A span as the specification describes it: it opens with two opening braces and ends
  with the next two closing braces, so no two closing braces begin before its last two
  bytes. Its content may be empty and may hold a single closing brace.
\<close>

definition delimited_span :: "string \<Rightarrow> bool" where
  "delimited_span m =
     (4 \<le> length m \<and> take 2 m = ''{{'' \<and> drop (length m - 2) m = ''}}'' \<and>
      \<not> list_ex (\<lambda>i. take 2 (drop i m) = ''}}'') [2..<length m - 2])"

text \<open>
  The command by precedence, in the words of the specification: the block's explicit
  command if it is not empty, else the command for the block's language if there is one
  and it is not empty, else the default command.
\<close>

definition precedence :: "Runner \<Rightarrow> CodeBlock \<Rightarrow> string" where
  "precedence r block =
     (if Command block \<noteq> '''' then Command block
      else (case Commands r of
              None \<Rightarrow> DefaultCommand r
            | Some m \<Rightarrow>
                (case m (Language block) of
                   None \<Rightarrow> DefaultCommand r
                 | Some c \<Rightarrow> if c \<noteq> '''' then c else DefaultCommand r)))"

section \<open>Concrete inputs\<close>

text \<open>A host that is not Windows and has \<open>SHELL\<close> set, and a runner as the tests build it.\<close>

definition unix_host :: platform where
  "unix_host =
     \<lparr>GOOS = ''linux'',
      Getenv = (\<lambda>k. if k = ''SHELL'' then ''/bin/bash'' else ''''),
      Environ = [''SHELL=/bin/bash'']\<rparr>"

text \<open>
  An evaluator for the closed examples. It answers a variable of the store with its
  printed value and the constant expression \<^verbatim>\<open>{1:2}.size()\<close> with \<open>1\<close>, the size of a map
  with one entry; any other text it reports as a failure to compile, which is what an
  unknown identifier or a lone brace is. The theorems hold for every evaluator.
\<close>

definition sample_env :: "store \<Rightarrow> cel_env" where
  "sample_env store expr =
     (case store expr of
        Some (GoString s) \<Rightarrow> Value s
      | Some (GoInt n) \<Rightarrow> Value (Sprintf_d n)
      | Some (GoBool b) \<Rightarrow> Value (if b then ''true'' else ''false'')
      | None \<Rightarrow>
          if expr = ''{1:2}.size()'' then Value ''1''
          else CompileIssues ''does not compile'')"

definition sample_cel :: cel where
  "sample_cel store = Inr (sample_env store)"

definition go_block :: CodeBlock where
  "go_block = \<lparr>Language = ''go'', Command = '''', Content = ''package main''\<rparr>"

definition sample_store :: store where
  "sample_store = Run_store go_block 0"

text \<open>A child process that always succeeds.\<close>

definition succeeds :: process where
  "succeeds runs c = None"

section \<open>The command builder\<close>

lemma standalone_class_iff: "standalone_class c \<longleftrightarrow> c \<in> set bare_name_bytes"
  by (cases c) (simp add: standalone_class_def between_def bare_name_bytes_def)

text \<open>
  C5: \<open>BuildCommand\<close> returns a command that consists only of bytes of the class
  \<^verbatim>\<open>[A-Za-z0-9_.+-]\<close>, and has at least one, as the program with no arguments. Any other
  command goes to \<open>cmd /c\<close> on Windows, and elsewhere to the shell named by \<open>SHELL\<close>, or
  to \<open>/bin/sh\<close> when \<open>SHELL\<close> is empty, with the arguments \<open>-c\<close> and the command.
\<close>

theorem BuildCommand_classification:
  "BuildCommand os c =
     (if c \<noteq> [] \<and> (\<forall>ch \<in> set c. ch \<in> set bare_name_bytes) then (c, [], None)
      else if GOOS os = ''windows'' then (''cmd'', [''/c'', c], None)
      else if Getenv os ''SHELL'' \<noteq> '''' then (Getenv os ''SHELL'', [''-c'', c], None)
      else (''/bin/sh'', [''-c'', c], None))"
  by (simp add: BuildCommand_def standaloneCommandReg_MatchString_def detectShell_def Let_def
        list_all_iff standalone_class_iff)

theorem BuildCommand_classification_witness:
  "BuildCommand unix_host ''gofmt'' = (''gofmt'', [], None) \<and>
   BuildCommand unix_host ''echo hello'' = (''/bin/bash'', [''-c'', ''echo hello''], None)"
  using BuildCommand_classification [of unix_host "''gofmt''"]
    BuildCommand_classification [of unix_host "''echo hello''"]
  by (simp add: bare_name_bytes_def unix_host_def)

text \<open>
  C8: the error that \<open>BuildCommand\<close> returns is \<open>nil\<close> for every input and on every
  platform.
\<close>

theorem BuildCommand_error_nil: "snd (snd (BuildCommand os c)) = None"
  by (simp add: BuildCommand_def Let_def)

end
